theory Spec2Isabelle
  imports Main "HOL-Library.Word"
begin

section \<open>The ssh runner of golang-exec (runner/ssh/runner.go)\<close>

text \<open>
  The runner talks to the file system, to the ssh library and to the script package.
  Each external call is modelled by a field of the record \<open>world\<close> that gives the
  call's result, and every function returns, next to its value, the list of external
  calls it made, in order. A Go panic is the value \<open>Panic\<close>.
\<close>

subsection \<open>Errors\<close>

text \<open>
  A Go error value, as far as \<open>errors.As\<close> can tell errors apart: the ssh library's
  \<open>*ssh.ExitError\<close> with its exit status, any other plain error with its message, and
  the wrapper built by \<open>fmt.Errorf\<close> with the verb \<open>w\<close>, which keeps its format string
  and the wrapped error.
\<close>

datatype go_error =
    ExitError int
  | PlainError string
  | Errorf string go_error

text \<open>\<open>errors.As(err, &exitErr)\<close> for \<open>exitErr :: *ssh.ExitError\<close>, followed by
  \<open>exitErr.Waitmsg.ExitStatus()\<close>: the first exit error of the chain.\<close>

fun errors_As_ExitError :: "go_error \<Rightarrow> int option" where
  "errors_As_ExitError (ExitError n) = Some n"
| "errors_As_ExitError (PlainError m) = None"
| "errors_As_ExitError (Errorf f e) = errors_As_ExitError e"

text \<open>\<open>errors.Unwrap\<close>.\<close>

fun errors_Unwrap :: "go_error \<Rightarrow> go_error option" where
  "errors_Unwrap (Errorf f e) = Some e"
| "errors_Unwrap e = None"

datatype 'a exec = Panic string | Return 'a

subsection \<open>Data\<close>

datatype AuthMethod = ssh_Password string | ssh_PublicKeys string

datatype HostKeyCallback = InsecureIgnoreHostKey | KnownHostsCallback string

record Connection =
  Type :: string
  Host :: string
  Port :: "16 word"
  User :: string
  Password :: string
  PubKeyPath :: string
  PubKey :: "AuthMethod option"
  Insecure :: bool

text \<open>The script package is not part of the runner: a script is what the runner reads
  of it, the field \<open>Error\<close>, the result of \<open>Command()\<close> and the result of
  \<open>NewReader(arguments)\<close>.\<close>

record Script =
  script_Name :: string
  script_Error :: "go_error option"
  script_Command :: string
  script_NewReader :: "string \<Rightarrow> go_error + string"

record Error =
  e_script :: Script
  e_command :: string
  e_exitCode :: int
  e_err :: go_error

record ClientConfig =
  cfg_User :: string
  Auth :: "AuthMethod option list"
  HostKeyCallback :: HostKeyCallback

datatype Client = Client nat

record Session =
  handle :: nat
  Stdin :: "string option"
  Stdout :: "string option"
  Stderr :: "string option"

record Runner =
  script :: Script
  command :: string
  client :: "Client option"
  session :: "Session option"
  running :: bool
  exitCode :: int

definition Error_ExitCode :: "Error \<Rightarrow> int" where
  "Error_ExitCode e = e_exitCode e"

definition Error_Unwrap :: "Error \<Rightarrow> go_error" where
  "Error_Unwrap e = e_err e"

definition Error_Script :: "Error \<Rightarrow> Script" where
  "Error_Script e = e_script e"

definition Error_Command :: "Error \<Rightarrow> string" where
  "Error_Command e = e_command e"

subsection \<open>The outside world\<close>

datatype call =
    StatC string
  | ReadFileC string
  | ParsePrivateKeyC string
  | PrintlnC go_error
  | NewReaderC string
  | HomedirExpandC string
  | KnownhostsNewC string
  | DialC string string ClientConfig
  | NewSessionC Client
  | SignalC string
  | SessionCloseC
  | ClientCloseC

record world =
  os_Stat :: "string \<Rightarrow> go_error option"
  ioutil_ReadFile :: "string \<Rightarrow> go_error + string"
  ssh_ParsePrivateKey :: "string \<Rightarrow> go_error + string"
  homedir_Expand :: "string \<Rightarrow> go_error + string"
  knownhosts_New :: "string \<Rightarrow> go_error + HostKeyCallback"
  ssh_Dial :: "string \<Rightarrow> string \<Rightarrow> ClientConfig \<Rightarrow> go_error + Client"
  client_NewSession :: "Client \<Rightarrow> go_error + Session"

subsection \<open>Values seen through package reflect\<close>

text \<open>
  A \<open>reflect.Value\<close>: the zero Value (a field that does not exist), a value of kind
  String, a value of an unsigned integer kind, a value of kind Bool, and a value of any
  other kind. All but the first two carry the name of their type, which
  \<open>Value.String\<close> prints.
\<close>

datatype rvalue =
    InvalidV
  | StringV string
  | UintV string nat
  | BoolV string bool
  | OtherV string

fun rv_String :: "rvalue \<Rightarrow> string" where
  "rv_String (StringV s) = s"
| "rv_String InvalidV = ''<invalid Value>''"
| "rv_String (UintV t n) = ''<'' @ t @ '' Value>''"
| "rv_String (BoolV t b) = ''<'' @ t @ '' Value>''"
| "rv_String (OtherV t) = ''<'' @ t @ '' Value>''"

text \<open>\<open>Value.Uint\<close> and \<open>Value.Bool\<close> panic on a value of another kind, the zero Value
  included. (The text of the panic names the kind; the model has one text for all.)\<close>

fun rv_Uint :: "rvalue \<Rightarrow> nat exec" where
  "rv_Uint (UintV t n) = Return n"
| "rv_Uint v = Panic ''reflect: call of reflect.Value.Uint on non-uint Value''"

fun rv_Bool :: "rvalue \<Rightarrow> bool exec" where
  "rv_Bool (BoolV t b) = Return b"
| "rv_Bool v = Panic ''reflect: call of reflect.Value.Bool on non-bool Value''"

text \<open>
  What a struct holds under a name: a value that \<open>FieldByName\<close> returns (the zero Value
  when the struct has no field of that name), or a field promoted through an embedded
  pointer that is nil, on which \<open>FieldByName\<close> panics.
\<close>

datatype field = Field rvalue | ThroughNilPointer

definition FieldByName :: "(string \<Rightarrow> field) \<Rightarrow> string \<Rightarrow> rvalue exec" where
  "FieldByName v name =
     (case v name of
        Field x \<Rightarrow> Return x
      | ThroughNilPointer \<Rightarrow>
          Panic ''reflect: indirection through nil pointer to embedded struct'')"

text \<open>One statement after the other: a panic ends the sequence.\<close>

fun bind_exec :: "'a exec \<Rightarrow> ('a \<Rightarrow> 'b exec) \<Rightarrow> 'b exec" where
  "bind_exec (Panic m) f = Panic m"
| "bind_exec (Return x) f = f x"

text \<open>
  The argument \<open>connection interface{}\<close> after \<open>reflect.Indirect(reflect.ValueOf(_))\<close>:
  a struct, given by what it holds under each name; a map, given by its entries in the
  order the iterator happens to yield them; anything else.
\<close>

datatype conn_input =
    StructIn "string \<Rightarrow> field"
  | MapIn "(rvalue \<times> rvalue) list"
  | OtherIn

subsection \<open>Package strconv and strings\<close>

definition is_digit :: "char \<Rightarrow> bool" where
  "is_digit c = (of_char c \<ge> (48::nat) \<and> of_char c \<le> (57::nat))"

definition digit_val :: "char \<Rightarrow> nat" where
  "digit_val c = of_char c - 48"

text \<open>The loop of \<open>strconv.ParseUint(s, 10, 16)\<close>: \<open>None\<close> is a syntax or range
  error. The cutoff is \<open>maxUint64/10 + 1\<close>, the largest value is \<open>1<<16 - 1\<close>.\<close>

fun ParseUint_loop :: "nat \<Rightarrow> string \<Rightarrow> nat option" where
  "ParseUint_loop n [] = Some n"
| "ParseUint_loop n (c # cs) =
     (if \<not> is_digit c then None
      else if n \<ge> (2 ^ 64 - 1) div 10 + 1 then None
      else let n1 = n * 10 + digit_val c in
        if n1 > 2 ^ 16 - 1 then None else ParseUint_loop n1 cs)"

definition ParseUint_10_16 :: "string \<Rightarrow> nat option" where
  "ParseUint_10_16 s = (if s = [] then None else ParseUint_loop 0 s)"

text \<open>\<open>strings.ToLower\<close> on the bytes of a string: the letters A to Z become a to z.
  (Of the runes outside ASCII, Go maps only U+0130 and U+212A to ASCII letters, to i and
  k, which occur in none of the words \<open>ParseBool\<close> accepts.)\<close>

definition lower_char :: "char \<Rightarrow> char" where
  "lower_char c =
     (if (65::nat) \<le> of_char c \<and> of_char c \<le> (90::nat) then char_of (of_char c + (32::nat)) else c)"

definition strings_ToLower :: "string \<Rightarrow> string" where
  "strings_ToLower s = map lower_char s"

definition ParseBool :: "string \<Rightarrow> bool option" where
  "ParseBool str =
     (if str \<in> set [''1'', ''t'', ''T'', ''true'', ''TRUE'', ''True''] then Some True
      else if str \<in> set [''0'', ''f'', ''F'', ''false'', ''FALSE'', ''False''] then Some False
      else None)"

text \<open>The verb \<open>%d\<close> of \<open>fmt.Sprintf\<close> on an unsigned number.\<close>

fun show_nat :: "nat \<Rightarrow> string" where
  "show_nat n =
     (if n < 10 then [char_of (48 + n)] else show_nat (n div 10) @ [char_of (48 + n mod 10)])"

declare show_nat.simps [simp del]

subsection \<open>Connection.loadPubKey\<close>

definition loadPubKey :: "world \<Rightarrow> Connection \<Rightarrow> string \<Rightarrow> go_error option \<times> Connection \<times> call list" where
  "loadPubKey w c path =
     (case os_Stat w path of
        Some err \<Rightarrow> (Some err, c, [StatC path, PrintlnC err])
      | None \<Rightarrow>
     (case ioutil_ReadFile w path of
        Inl err \<Rightarrow> (Some err, c, [StatC path, ReadFileC path, PrintlnC err])
      | Inr kf \<Rightarrow>
     (case ssh_ParsePrivateKey w kf of
        Inl err \<Rightarrow> (Some err, c, [StatC path, ReadFileC path, ParsePrivateKeyC kf, PrintlnC err])
      | Inr sig \<Rightarrow>
          (None, c\<lparr>PubKey := Some (ssh_PublicKeys sig)\<rparr>,
           [StatC path, ReadFileC path, ParsePrivateKeyC kf]))))"

subsection \<open>toConnection\<close>

definition new_Connection :: Connection where
  "new_Connection =
     \<lparr>Type = [], Host = [], Port = 0, User = [], Password = [], PubKeyPath = [],
      PubKey = None, Insecure = False\<rparr>"

text \<open>One turn of the loop over the map: the switch on the key.\<close>

definition map_entry :: "world \<Rightarrow> Connection \<Rightarrow> rvalue \<times> rvalue \<Rightarrow> Connection \<times> call list" where
  "map_entry w c kv =
     (let key = rv_String (fst kv); val = rv_String (snd kv) in
      if key = ''Type'' then (c\<lparr>Type := val\<rparr>, [])
      else if key = ''Host'' then (c\<lparr>Host := val\<rparr>, [])
      else if key = ''Port'' then
        (c\<lparr>Port := word_of_nat (case ParseUint_10_16 val of None \<Rightarrow> 0 | Some p \<Rightarrow> p)\<rparr>, [])
      else if key = ''User'' then (c\<lparr>User := val\<rparr>, [])
      else if key = ''Password'' then (c\<lparr>Password := val\<rparr>, [])
      else if key = ''Insecure'' then
        (c\<lparr>Insecure := (case ParseBool (strings_ToLower val) of None \<Rightarrow> False | Some b \<Rightarrow> b)\<rparr>, [])
      else if key = ''PubKeyPath'' then
        (let c1 = c\<lparr>PubKeyPath := val\<rparr>; r = loadPubKey w c1 (PubKeyPath c1)
         in (fst (snd r), snd (snd r)))
      else (c, []))"

fun map_loop :: "world \<Rightarrow> Connection \<Rightarrow> (rvalue \<times> rvalue) list \<Rightarrow> Connection \<times> call list" where
  "map_loop w c [] = (c, [])"
| "map_loop w c (kv # kvs) =
     (let r = map_entry w c kv; r' = map_loop w (fst r) kvs in (fst r', snd r @ snd r'))"

text \<open>The seven assignments of the struct branch, in the order of the source: each reads
  a field by name, and \<open>Port\<close> and \<open>Insecure\<close> are then read as a number and as a
  boolean.\<close>

definition struct_fields :: "(string \<Rightarrow> field) \<Rightarrow> Connection exec" where
  "struct_fields v =
     bind_exec (FieldByName v ''Type'') (\<lambda>ty.
     bind_exec (FieldByName v ''Host'') (\<lambda>h.
     bind_exec (FieldByName v ''Port'') (\<lambda>pv.
     bind_exec (rv_Uint pv) (\<lambda>p.
     bind_exec (FieldByName v ''User'') (\<lambda>u.
     bind_exec (FieldByName v ''Password'') (\<lambda>pw.
     bind_exec (FieldByName v ''Insecure'') (\<lambda>iv.
     bind_exec (rv_Bool iv) (\<lambda>b.
     bind_exec (FieldByName v ''PubKeyPath'') (\<lambda>kp.
       Return (new_Connection
                 \<lparr>Type := rv_String ty, Host := rv_String h,
                  Port := word_of_nat p, User := rv_String u,
                  Password := rv_String pw, Insecure := b,
                  PubKeyPath := rv_String kp\<rparr>))))))))))"

fun toConnection :: "world \<Rightarrow> conn_input \<Rightarrow> Connection exec \<times> call list" where
  "toConnection w (StructIn v) =
     (case struct_fields v of
        Panic m \<Rightarrow> (Panic m, [])
      | Return c \<Rightarrow>
          if length (PubKeyPath c) > 0
          then (let r = loadPubKey w c (PubKeyPath c) in (Return (fst (snd r)), snd (snd r)))
          else (Return c, []))"
| "toConnection w (MapIn kvs) = (let r = map_loop w new_Connection kvs in (Return (fst r), snd r))"
| "toConnection w OtherIn = (Return new_Connection, [])"

subsection \<open>New\<close>

text \<open>The end of \<open>New\<close>, from \<open>ssh.Dial\<close> on: \<open>t\<close> is the list of the calls made before.\<close>

definition New_dial ::
  "world \<Rightarrow> Script \<Rightarrow> Runner \<Rightarrow> string \<Rightarrow> string \<Rightarrow> ClientConfig \<Rightarrow> call list
     \<Rightarrow> (Error + Runner) exec \<times> call list" where
  "New_dial w s r stdin address config t =
     (case ssh_Dial w ''tcp'' address config of
        Inl err \<Rightarrow>
          (Return (Inl \<lparr>e_script = s, e_command = [], e_exitCode = - 1,
             e_err = Errorf ''[golang-exec/runner/ssh/New()] cannot dial host: %#w\<newline>'' err\<rparr>),
           t @ [DialC ''tcp'' address config])
      | Inr cl \<Rightarrow>
     (case client_NewSession w cl of
        Inl err \<Rightarrow>
          (Return (Inl \<lparr>e_script = s, e_command = [], e_exitCode = - 1,
             e_err = Errorf ''[golang-exec/runner/ssh/New()] cannot open session: %#w\<newline>'' err\<rparr>),
           t @ [DialC ''tcp'' address config, NewSessionC cl])
      | Inr sess \<Rightarrow>
          (Return (Inr (r\<lparr>client := Some cl, session := Some (sess\<lparr>Stdin := Some stdin\<rparr>)\<rparr>)),
           t @ [DialC ''tcp'' address config, NewSessionC cl])))"

definition New ::
  "world \<Rightarrow> conn_input \<Rightarrow> Script \<Rightarrow> string \<Rightarrow> (Error + Runner) exec \<times> call list" where
  "New w connection s arguments =
     (case script_Error s of
        Some perr \<Rightarrow>
          (Return (Inl \<lparr>e_script = s, e_command = [], e_exitCode = - 1,
             e_err = Errorf ''[golang-exec/runner/ssh/New()] script failed to parse: %#w\<newline>'' perr\<rparr>),
           [])
      | None \<Rightarrow>
     (case toConnection w connection of
        (Panic m, t0) \<Rightarrow> (Panic m, t0)
      | (Return c, t0) \<Rightarrow>
     (let r = \<lparr>script = s, command = script_Command s, client = None, session = None,
                running = False, exitCode = 0\<rparr>;
          t1 = t0 @ [NewReaderC arguments]
      in
      case script_NewReader s arguments of
        Inl err \<Rightarrow>
          (Return (Inl \<lparr>e_script = s, e_command = [], e_exitCode = - 1,
             e_err = Errorf ''[golang-exec/runner/ssh/New()] cannot create stdin reader: %#w\<newline>'' err\<rparr>),
           t1)
      | Inr stdin \<Rightarrow>
     (let address = Host c @ '':'' @ show_nat (unat (Port c));
          authMethods =
            (if length (Password c) > 0 \<and> PubKey c = None
             then [Some (ssh_Password (Password c))]
             else [PubKey c])
      in
      if Insecure c then
        New_dial w s r stdin address
          \<lparr>cfg_User = User c, Auth = authMethods, HostKeyCallback = InsecureIgnoreHostKey\<rparr> t1
      else
       (case homedir_Expand w ''~/.ssh/known_hosts'' of
          Inl err \<Rightarrow>
            (Return (Inl \<lparr>e_script = s, e_command = [], e_exitCode = - 1,
               e_err = Errorf ''[golang-exec/runner/ssh/New()] cannot find home directory of current user: %#w\<newline>'' err\<rparr>),
             t1 @ [HomedirExpandC ''~/.ssh/known_hosts''])
        | Inr f \<Rightarrow>
       (case knownhosts_New w f of
          Inl err \<Rightarrow>
            (Return (Inl \<lparr>e_script = s, e_command = [], e_exitCode = - 1,
               e_err = Errorf ''[golang-exec/runner/ssh/New()] cannot access 'known_hosts'-file: %#w\<newline>'' err\<rparr>),
             t1 @ [HomedirExpandC ''~/.ssh/known_hosts'', KnownhostsNewC f])
        | Inr hostKeyCallback \<Rightarrow>
            New_dial w s r stdin address
              \<lparr>cfg_User = User c, Auth = authMethods, HostKeyCallback = hostKeyCallback\<rparr>
              (t1 @ [HomedirExpandC ''~/.ssh/known_hosts'', KnownhostsNewC f])))))))"

subsection \<open>The methods of Runner\<close>

text \<open>
  Each method takes, after the runner, the result that the ssh library gives to the call
  the method makes, and returns the runner as the method leaves it together with the
  method's own result. A method called on a runner whose session is nil dereferences a
  nil pointer.
\<close>

definition nil_deref :: string where
  "nil_deref = ''runtime error: invalid memory address or nil pointer dereference''"

definition SetStdoutWriter :: "Runner \<Rightarrow> string \<Rightarrow> Runner exec" where
  "SetStdoutWriter r stdout =
     (case session r of
        None \<Rightarrow> Panic nil_deref
      | Some sess \<Rightarrow> Return (r\<lparr>session := Some (sess\<lparr>Stdout := Some stdout\<rparr>)\<rparr>))"

definition SetStderrWriter :: "Runner \<Rightarrow> string \<Rightarrow> Runner exec" where
  "SetStderrWriter r stderr =
     (case session r of
        None \<Rightarrow> Panic nil_deref
      | Some sess \<Rightarrow> Return (r\<lparr>session := Some (sess\<lparr>Stderr := Some stderr\<rparr>)\<rparr>))"

definition StdoutPipe :: "Runner \<Rightarrow> go_error + string \<Rightarrow> (Runner \<times> (Error + string)) exec" where
  "StdoutPipe r res =
     (case session r of
        None \<Rightarrow> Panic nil_deref
      | Some sess \<Rightarrow>
     (case res of
        Inl err \<Rightarrow>
          (let r' = r\<lparr>exitCode := - 1\<rparr> in
           Return (r', Inl \<lparr>e_script = script r', e_command = [], e_exitCode = exitCode r',
             e_err = Errorf ''[golang-exec/runner/ssh/StdoutPipe()] cannot create stdout reader: %#w\<newline>'' err\<rparr>))
      | Inr reader \<Rightarrow> Return (r, Inr reader)))"

definition StderrPipe :: "Runner \<Rightarrow> go_error + string \<Rightarrow> (Runner \<times> (Error + string)) exec" where
  "StderrPipe r res =
     (case session r of
        None \<Rightarrow> Panic nil_deref
      | Some sess \<Rightarrow>
     (case res of
        Inl err \<Rightarrow>
          (let r' = r\<lparr>exitCode := - 1\<rparr> in
           Return (r', Inl \<lparr>e_script = script r', e_command = [], e_exitCode = exitCode r',
             e_err = Errorf ''[golang-exec/runner/ssh/StderrPipe()] cannot create stderr reader: %#w\<newline>'' err\<rparr>))
      | Inr reader \<Rightarrow> Return (r, Inr reader)))"

definition Run :: "Runner \<Rightarrow> go_error option \<Rightarrow> (Runner \<times> Error option) exec" where
  "Run r res =
     (case session r of
        None \<Rightarrow> Panic nil_deref
      | Some sess \<Rightarrow>
     (case res of
        Some err \<Rightarrow>
          (case errors_As_ExitError err of
             Some status \<Rightarrow>
               (let r' = r\<lparr>exitCode := status\<rparr> in
                Return (r', Some \<lparr>e_script = script r', e_command = command r',
                  e_exitCode = exitCode r',
                  e_err = Errorf ''[golang-exec/runner/ssh/Run()] runner failed: %#w\<newline>'' err\<rparr>))
           | None \<Rightarrow>
               (let r' = r\<lparr>exitCode := - 1\<rparr> in
                Return (r', Some \<lparr>e_script = script r', e_command = command r',
                  e_exitCode = exitCode r',
                  e_err = Errorf ''[golang-exec/runner/ssh/Run()] cannot execute runner: %#w\<newline>'' err\<rparr>)))
      | None \<Rightarrow> Return (r\<lparr>exitCode := 0\<rparr>, None)))"

definition Start :: "Runner \<Rightarrow> go_error option \<Rightarrow> (Runner \<times> Error option) exec" where
  "Start r res =
     (case session r of
        None \<Rightarrow> Panic nil_deref
      | Some sess \<Rightarrow>
     (case res of
        Some err \<Rightarrow>
          (let r' = r\<lparr>exitCode := - 1\<rparr> in
           Return (r', Some \<lparr>e_script = script r', e_command = command r',
             e_exitCode = exitCode r',
             e_err = Errorf ''[golang-exec/runner/ssh/Start()] cannot start runner: %#w\<newline>'' err\<rparr>))
      | None \<Rightarrow> Return (r\<lparr>running := True\<rparr>, None)))"

definition Wait :: "Runner \<Rightarrow> go_error option \<Rightarrow> (Runner \<times> Error option) exec" where
  "Wait r res =
     (case session r of
        None \<Rightarrow> Panic nil_deref
      | Some sess \<Rightarrow>
     (let r0 = r\<lparr>running := False\<rparr> in
      case res of
        Some err \<Rightarrow>
          (let r' = (case errors_As_ExitError err of
                       Some status \<Rightarrow> r0\<lparr>exitCode := status\<rparr>
                     | None \<Rightarrow> r0\<lparr>exitCode := - 1\<rparr>)
           in Return (r', Some \<lparr>e_script = script r', e_command = command r',
                e_exitCode = exitCode r',
                e_err = Errorf ''[golang-exec/runner/ssh/Wait()] runner failed: %#w\<newline>'' err\<rparr>))
      | None \<Rightarrow> Return (r0\<lparr>exitCode := 0\<rparr>, None)))"

text \<open>\<open>Close\<close> takes the results of \<open>session.Signal\<close>, \<open>session.Close\<close> and
  \<open>client.Close\<close>, and returns its own result with the calls it made.\<close>

definition Close ::
  "Runner \<Rightarrow> go_error option \<times> go_error option \<times> go_error option
     \<Rightarrow> (go_error option \<times> call list) exec" where
  "Close r res =
     (if running r \<and> session r = None then Panic nil_deref
      else Return (None,
        (if running r then [SignalC ''TERM''] else []) @
        (if session r \<noteq> None then [SessionCloseC] else []) @
        (if client r \<noteq> None then [ClientCloseC] else [])))"

definition ExitCode :: "Runner \<Rightarrow> int" where
  "ExitCode r = exitCode r"

subsection \<open>The ssh library and the callers\<close>

text \<open>\<open>Session.Run\<close> of golang.org/x/crypto/ssh is \<open>Start\<close> followed by \<open>Wait\<close>: it
  returns the error of \<open>Start\<close> if there is one, and the result of \<open>Wait\<close> otherwise.\<close>

definition session_Run :: "go_error option \<Rightarrow> go_error option \<Rightarrow> go_error option" where
  "session_Run start_res wait_res = (case start_res of Some err \<Rightarrow> Some err | None \<Rightarrow> wait_res)"

text \<open>A caller that starts the command and, when \<open>Start\<close> returned no error, waits.\<close>

definition Start_then_Wait ::
  "Runner \<Rightarrow> go_error option \<Rightarrow> go_error option \<Rightarrow> (Runner \<times> Error option) exec" where
  "Start_then_Wait r start_res wait_res =
     (case Start r start_res of
        Panic m \<Rightarrow> Panic m
      | Return (r', Some e) \<Rightarrow> Return (r', Some e)
      | Return (r', None) \<Rightarrow> Wait r' wait_res)"

text \<open>A caller that calls the methods of a runner one after the other, each with the
  results the library gives to it.\<close>

datatype op =
    OpSetStdoutWriter string
  | OpSetStderrWriter string
  | OpStdoutPipe "go_error + string"
  | OpStderrPipe "go_error + string"
  | OpRun "go_error option"
  | OpStart "go_error option"
  | OpWait "go_error option"
  | OpClose "go_error option \<times> go_error option \<times> go_error option"

fun map_exec :: "('a \<Rightarrow> 'b) \<Rightarrow> 'a exec \<Rightarrow> 'b exec" where
  "map_exec f (Panic m) = Panic m"
| "map_exec f (Return x) = Return (f x)"

fun caller_step :: "Runner \<Rightarrow> op \<Rightarrow> Runner exec" where
  "caller_step r (OpSetStdoutWriter out) = SetStdoutWriter r out"
| "caller_step r (OpSetStderrWriter out) = SetStderrWriter r out"
| "caller_step r (OpStdoutPipe res) = map_exec fst (StdoutPipe r res)"
| "caller_step r (OpStderrPipe res) = map_exec fst (StderrPipe r res)"
| "caller_step r (OpRun res) = map_exec fst (Run r res)"
| "caller_step r (OpStart res) = map_exec fst (Start r res)"
| "caller_step r (OpWait res) = map_exec fst (Wait r res)"
| "caller_step r (OpClose res) = map_exec (\<lambda>x. r) (Close r res)"

fun caller_steps :: "Runner \<Rightarrow> op list \<Rightarrow> Runner exec" where
  "caller_steps r [] = Return r"
| "caller_steps r (x # xs) =
     (case caller_step r x of Panic m \<Rightarrow> Panic m | Return r' \<Rightarrow> caller_steps r' xs)"

subsection \<open>Notions of the specification\<close>

text \<open>The state Connected: the transport and the command channel are open and nothing
  has been started.\<close>

definition Connected :: "Runner \<Rightarrow> bool" where
  "Connected r = (session r \<noteq> None \<and> client r \<noteq> None \<and> \<not> running r)"

definition wired :: "Runner \<Rightarrow> bool" where
  "wired r = (session r \<noteq> None \<and> client r \<noteq> None)"

text \<open>The shape of a returned error: nil or not, and for an error its script, its
  command, its exit code and the cause it wraps, leaving out the text of the message.\<close>

definition error_shape ::
  "Error option \<Rightarrow> (Script \<times> string \<times> int \<times> go_error option) option" where
  "error_shape eo =
     map_option
       (\<lambda>e. (Error_Script e, Error_Command e, Error_ExitCode e, errors_Unwrap (Error_Unwrap e))) eo"

text \<open>The credential that \<open>loadPubKey\<close> stores for a path, if it stores one.\<close>

definition loaded_key :: "world \<Rightarrow> string \<Rightarrow> AuthMethod option" where
  "loaded_key w path =
     (case os_Stat w path of
        Some err \<Rightarrow> None
      | None \<Rightarrow>
     (case ioutil_ReadFile w path of
        Inl err \<Rightarrow> None
      | Inr kf \<Rightarrow>
     (case ssh_ParsePrivateKey w kf of
        Inl err \<Rightarrow> None
      | Inr sig \<Rightarrow> Some (ssh_PublicKeys sig))))"

text \<open>A value of the struct type \<open>ssh.Connection\<close>, as package reflect shows it.\<close>

definition struct_of_Connection :: "Connection \<Rightarrow> string \<Rightarrow> field" where
  "struct_of_Connection r =
     (\<lambda>n. if n = ''Type'' then Field (StringV (Type r))
          else if n = ''Host'' then Field (StringV (Host r))
          else if n = ''Port'' then Field (UintV ''uint16'' (unat (Port r)))
          else if n = ''User'' then Field (StringV (User r))
          else if n = ''Password'' then Field (StringV (Password r))
          else if n = ''PubKeyPath'' then Field (StringV (PubKeyPath r))
          else if n = ''PubKey'' then Field (OtherV ''ssh.AuthMethod'')
          else if n = ''Insecure'' then Field (BoolV ''bool'' (Insecure r))
          else Field InvalidV)"

text \<open>The structs on which the struct branch reads all its fields: none of the seven is
  promoted through a nil pointer, \<open>Port\<close> is of an unsigned integer kind and \<open>Insecure\<close>
  is of kind Bool.\<close>

fun is_Field :: "field \<Rightarrow> bool" where
  "is_Field (Field x) = True"
| "is_Field ThroughNilPointer = False"

fun is_Uint_field :: "field \<Rightarrow> bool" where
  "is_Uint_field (Field (UintV t n)) = True"
| "is_Uint_field f = False"

fun is_Bool_field :: "field \<Rightarrow> bool" where
  "is_Bool_field (Field (BoolV t b)) = True"
| "is_Bool_field f = False"

definition wellformed_struct :: "(string \<Rightarrow> field) \<Rightarrow> bool" where
  "wellformed_struct v =
     (is_Field (v ''Type'') \<and> is_Field (v ''Host'') \<and> is_Uint_field (v ''Port'')
      \<and> is_Field (v ''User'') \<and> is_Field (v ''Password'') \<and> is_Bool_field (v ''Insecure'')
      \<and> is_Field (v ''PubKeyPath''))"

text \<open>The same fields as a string-keyed mapping, the number and the boolean written as
  text.\<close>

definition mapping_of_Connection :: "Connection \<Rightarrow> (string \<times> string) list" where
  "mapping_of_Connection r =
     [(''Type'', Type r), (''Host'', Host r), (''Port'', show_nat (unat (Port r))),
      (''User'', User r), (''Password'', Password r),
      (''Insecure'', if Insecure r then ''true'' else ''false''),
      (''PubKeyPath'', PubKeyPath r)]"

text \<open>A \<open>map[string]string\<close> whose iterator yields the entries in the order of the list.\<close>

definition string_map :: "(string \<times> string) list \<Rightarrow> conn_input" where
  "string_map kvs = MapIn (map (\<lambda>kv. (StringV (fst kv), StringV (snd kv))) kvs)"

definition entry_strings :: "(rvalue \<times> rvalue) list \<Rightarrow> (string \<times> string) list" where
  "entry_strings kvs = map (\<lambda>kv. (rv_String (fst kv), rv_String (snd kv))) kvs"

text \<open>The descriptor that the loop over a map with distinct keys builds, read off the
  map.\<close>

definition conn_of_lookup :: "world \<Rightarrow> Connection \<Rightarrow> (string \<rightharpoonup> string) \<Rightarrow> Connection" where
  "conn_of_lookup w c m =
     \<lparr>Type = (case m ''Type'' of None \<Rightarrow> Type c | Some v \<Rightarrow> v),
      Host = (case m ''Host'' of None \<Rightarrow> Host c | Some v \<Rightarrow> v),
      Port = (case m ''Port'' of None \<Rightarrow> Port c
              | Some v \<Rightarrow> word_of_nat (case ParseUint_10_16 v of None \<Rightarrow> 0 | Some p \<Rightarrow> p)),
      User = (case m ''User'' of None \<Rightarrow> User c | Some v \<Rightarrow> v),
      Password = (case m ''Password'' of None \<Rightarrow> Password c | Some v \<Rightarrow> v),
      PubKeyPath = (case m ''PubKeyPath'' of None \<Rightarrow> PubKeyPath c | Some v \<Rightarrow> v),
      PubKey = (case m ''PubKeyPath'' of None \<Rightarrow> PubKey c
                | Some v \<Rightarrow> (case loaded_key w v of None \<Rightarrow> PubKey c | Some k \<Rightarrow> Some k)),
      Insecure = (case m ''Insecure'' of None \<Rightarrow> Insecure c
                  | Some v \<Rightarrow> (case ParseBool (strings_ToLower v) of None \<Rightarrow> False | Some b \<Rightarrow> b))\<rparr>"

text \<open>The calls that \<open>toConnection\<close> can make: those of \<open>loadPubKey\<close>.\<close>

fun key_call :: "call \<Rightarrow> bool" where
  "key_call (StatC p) = True"
| "key_call (ReadFileC p) = True"
| "key_call (ParsePrivateKeyC kf) = True"
| "key_call (PrintlnC e) = True"
| "key_call c = False"

text \<open>A map with the value \<open>t\<close> at the key \<open>Type\<close>, if it has that key.\<close>

definition set_Type :: "rvalue \<Rightarrow> (rvalue \<times> rvalue) list \<Rightarrow> (rvalue \<times> rvalue) list" where
  "set_Type t kvs = map (\<lambda>kv. if rv_String (fst kv) = ''Type'' then (fst kv, t) else kv) kvs"

subsection \<open>Example inputs\<close>

definition example_world :: world where
  "example_world =
     \<lparr>os_Stat = (\<lambda>p. if p = ''/home/me/.ssh/id_rsa'' then None
                     else Some (PlainError ''no such file or directory'')),
      ioutil_ReadFile = (\<lambda>p. Inr ''PRIVATE KEY''),
      ssh_ParsePrivateKey = (\<lambda>kf. Inr ''signer''),
      homedir_Expand = (\<lambda>p. Inr ''/home/me/.ssh/known_hosts''),
      knownhosts_New = (\<lambda>f. Inr (KnownHostsCallback f)),
      ssh_Dial = (\<lambda>n a cfg. Inr (Client 1)),
      client_NewSession = (\<lambda>cl. Inr \<lparr>handle = 1, Stdin = None, Stdout = None, Stderr = None\<rparr>)\<rparr>"

definition example_script :: Script where
  "example_script =
     \<lparr>script_Name = ''ls'', script_Error = None, script_Command = ''bash -'',
      script_NewReader = (\<lambda>a. Inr ''ls -l'')\<rparr>"

definition example_connection :: Connection where
  "example_connection =
     \<lparr>Type = ''ssh'', Host = ''localhost'', Port = 22, User = ''me'',
      Password = ''my-password'', PubKeyPath = [], PubKey = None, Insecure = True\<rparr>"

definition example_runner :: Runner where
  "example_runner =
     \<lparr>script = example_script, command = ''bash -'', client = Some (Client 1),
      session = Some \<lparr>handle = 1, Stdin = Some ''ls -l'', Stdout = None, Stderr = None\<rparr>,
      running = False, exitCode = 0\<rparr>"

definition example_calls :: "call list" where
  "example_calls =
     [NewReaderC ''args'',
      DialC ''tcp'' ''localhost:22''
        \<lparr>cfg_User = ''me'', Auth = [Some (ssh_Password ''my-password'')],
         HostKeyCallback = InsecureIgnoreHostKey\<rparr>,
      NewSessionC (Client 1)]"

section \<open>Properties\<close>

subsection \<open>What New returns\<close>

lemma show_nat_22: "show_nat 22 = ''22''"
  by code_simp

lemma bind_exec_Return_iff:
  "(bind_exec X f = Return c) = (\<exists>x. X = Return x \<and> f x = Return c)"
  by (cases X) simp_all

lemma FieldByName_Return_iff: "(FieldByName v n = Return x) = (v n = Field x)"
  by (cases "v n") (simp_all add: FieldByName_def)

lemma rv_Uint_Return_iff: "(rv_Uint x = Return n) = (\<exists>t. x = UintV t n)"
  by (cases x) simp_all

lemma rv_Bool_Return_iff: "(rv_Bool x = Return b) = (\<exists>t. x = BoolV t b)"
  by (cases x) simp_all

lemma struct_fields_Return_iff:
  "(struct_fields v = Return c) =
     (\<exists>ty h t p u pw t' b kp.
        v ''Type'' = Field ty \<and> v ''Host'' = Field h \<and> v ''Port'' = Field (UintV t p)
      \<and> v ''User'' = Field u \<and> v ''Password'' = Field pw
      \<and> v ''Insecure'' = Field (BoolV t' b) \<and> v ''PubKeyPath'' = Field kp
      \<and> c = new_Connection
                 \<lparr>Type := rv_String ty, Host := rv_String h,
                  Port := word_of_nat p, User := rv_String u,
                  Password := rv_String pw, Insecure := b,
                  PubKeyPath := rv_String kp\<rparr>)"
  unfolding struct_fields_def bind_exec_Return_iff FieldByName_Return_iff
    rv_Uint_Return_iff rv_Bool_Return_iff
  by auto

lemma is_Field_iff: "is_Field f = (\<exists>x. f = Field x)"
  by (cases f) simp_all

lemma is_Uint_field_iff: "is_Uint_field f = (\<exists>t n. f = Field (UintV t n))"
  by (cases f rule: is_Uint_field.cases) simp_all

lemma is_Bool_field_iff: "is_Bool_field f = (\<exists>t b. f = Field (BoolV t b))"
  by (cases f rule: is_Bool_field.cases) simp_all

lemma struct_fields_wellformed: "(\<exists>c. struct_fields v = Return c) = wellformed_struct v"
  unfolding struct_fields_Return_iff wellformed_struct_def is_Field_iff is_Uint_field_iff
    is_Bool_field_iff
  by auto

lemma struct_fields_of_Connection:
  "struct_fields (struct_of_Connection r) = Return (r\<lparr>PubKey := None\<rparr>)"
  by (simp add: struct_fields_def FieldByName_def struct_of_Connection_def new_Connection_def)

lemma New_example:
  "New example_world (StructIn (struct_of_Connection example_connection)) example_script ''args''
     = (Return (Inr example_runner), example_calls)"
  by (simp add: New_def New_dial_def example_world_def example_script_def example_connection_def
        example_runner_def example_calls_def struct_fields_of_Connection
        show_nat_22 Let_def)

lemma New_Runner_shape:
  assumes "New w connection s arguments = (Return (Inr r), t)"
  shows "exitCode r = 0 \<and> running r = False \<and> session r \<noteq> None \<and> client r \<noteq> None
         \<and> script r = s \<and> command r = script_Command s"
  using assms
  by (auto simp: New_def New_dial_def Let_def
           split: option.splits exec.splits sum.splits prod.splits if_splits)

lemma New_Error_exitCode:
  assumes "New w connection s arguments = (Return (Inl e), t)"
  shows "e_exitCode e = - 1 \<and> e_script e = s \<and> e_command e = []"
  using assms
  by (auto simp: New_def New_dial_def Let_def
           split: option.splits exec.splits sum.splits prod.splits if_splits)

text \<open>
  Claim C3. A script whose field \<open>Error\<close> is not nil makes \<open>New\<close> fail at once: it
  returns no runner but an \<open>Error\<close> with the script, an empty command, the exit code -1
  and the parse failure as the wrapped cause, and it has made no external call: the
  connection is not resolved, no key is loaded, nothing is dialled.
\<close>

theorem New_parse_error_fails_first:
  assumes "script_Error s = Some perr"
  shows "\<exists>e. New w connection s arguments = (Return (Inl e), [])
           \<and> Error_Script e = s \<and> Error_Command e = [] \<and> Error_ExitCode e = - 1
           \<and> errors_Unwrap (Error_Unwrap e) = Some perr"
  using assms
  by (simp add: New_def Error_Script_def Error_Command_def Error_ExitCode_def Error_Unwrap_def)

theorem New_parse_error_fails_first_witness:
  "script_Error (example_script\<lparr>script_Error := Some (PlainError ''unexpected EOF'')\<rparr>)
     = Some (PlainError ''unexpected EOF'')
   \<and> (\<exists>e. New example_world (StructIn (struct_of_Connection example_connection))
             (example_script\<lparr>script_Error := Some (PlainError ''unexpected EOF'')\<rparr>) ''args''
           = (Return (Inl e), [])
         \<and> Error_Script e = example_script\<lparr>script_Error := Some (PlainError ''unexpected EOF'')\<rparr>
         \<and> Error_Command e = [] \<and> Error_ExitCode e = - 1
         \<and> errors_Unwrap (Error_Unwrap e) = Some (PlainError ''unexpected EOF''))"
  using New_parse_error_fails_first
    [of "example_script\<lparr>script_Error := Some (PlainError ''unexpected EOF'')\<rparr>"
        "PlainError ''unexpected EOF''" example_world
        "StructIn (struct_of_Connection example_connection)" "''args''"]
  by simp

subsection \<open>Exit codes\<close>

text \<open>
  Claim C1. On a runner whose session is open, \<open>Run\<close> and \<open>Wait\<close> return nil and record
  the exit code 0 when the library reports no error; when the error carries an
  \<open>*ssh.ExitError\<close> with status \<open>n\<close>, they return an \<open>Error\<close> whose exit code is \<open>n\<close> and
  record \<open>n\<close>; for any other error they return an \<open>Error\<close> with exit code -1 and record
  -1. A failure of \<open>Start\<close>, of \<open>StdoutPipe\<close> or of \<open>StderrPipe\<close> records -1, and every
  \<open>Error\<close> that \<open>New\<close> returns (parse, stdin reader, home directory, known hosts, dial,
  session) has the exit code -1.
\<close>

theorem Run_Wait_exit_codes:
  assumes "session r \<noteq> None"
  shows "(\<exists>r'. Run r None = Return (r', None) \<and> ExitCode r' = 0)
       \<and> (\<exists>r'. Wait r None = Return (r', None) \<and> ExitCode r' = 0)
       \<and> (\<forall>err n. errors_As_ExitError err = Some n \<longrightarrow>
            (\<exists>r' e. Run r (Some err) = Return (r', Some e) \<and> Error_ExitCode e = n \<and> ExitCode r' = n) \<and>
            (\<exists>r' e. Wait r (Some err) = Return (r', Some e) \<and> Error_ExitCode e = n \<and> ExitCode r' = n))
       \<and> (\<forall>err. errors_As_ExitError err = None \<longrightarrow>
            (\<exists>r' e. Run r (Some err) = Return (r', Some e) \<and> Error_ExitCode e = - 1 \<and> ExitCode r' = - 1) \<and>
            (\<exists>r' e. Wait r (Some err) = Return (r', Some e) \<and> Error_ExitCode e = - 1 \<and> ExitCode r' = - 1))
       \<and> (\<forall>err. \<exists>r' e. Start r (Some err) = Return (r', Some e) \<and> Error_ExitCode e = - 1 \<and> ExitCode r' = - 1)
       \<and> (\<forall>err. \<exists>r' e. StdoutPipe r (Inl err) = Return (r', Inl e) \<and> Error_ExitCode e = - 1 \<and> ExitCode r' = - 1)
       \<and> (\<forall>err. \<exists>r' e. StderrPipe r (Inl err) = Return (r', Inl e) \<and> Error_ExitCode e = - 1 \<and> ExitCode r' = - 1)
       \<and> (\<forall>w connection s arguments e t.
            New w connection s arguments = (Return (Inl e), t) \<longrightarrow> Error_ExitCode e = - 1)"
  using assms New_Error_exitCode
  by (auto simp: Run_def Wait_def Start_def StdoutPipe_def StderrPipe_def ExitCode_def
        Error_ExitCode_def Let_def split: option.splits)

theorem Run_Wait_exit_codes_witness:
  "session example_runner \<noteq> None
   \<and> (\<exists>r' e. Run example_runner (Some (ExitError 7)) = Return (r', Some e)
         \<and> Error_ExitCode e = 7 \<and> ExitCode r' = 7)
   \<and> (\<exists>r' e. Wait example_runner (Some (PlainError ''EOF'')) = Return (r', Some e)
         \<and> Error_ExitCode e = - 1 \<and> ExitCode r' = - 1)
   \<and> (\<exists>r'. Run example_runner None = Return (r', None) \<and> ExitCode r' = 0)"
proof -
  have s: "session example_runner \<noteq> None" by (simp add: example_runner_def)
  from Run_Wait_exit_codes [OF s] show ?thesis using s by simp
qed

text \<open>
  Claim C9. A runner that \<open>New\<close> has just returned has the exit code 0, and a run that
  succeeds leaves the same exit code: the exit code alone does not tell a runner that
  never ran from one that ran with success.
\<close>

theorem fresh_Runner_ExitCode_zero:
  assumes "New w connection s arguments = (Return (Inr r), t)"
  shows "ExitCode r = 0 \<and> (\<exists>r'. Run r None = Return (r', None) \<and> ExitCode r' = ExitCode r)"
  using New_Runner_shape [OF assms]
  by (auto simp: ExitCode_def Run_def split: option.splits)

theorem fresh_Runner_ExitCode_zero_witness:
  "New example_world (StructIn (struct_of_Connection example_connection)) example_script ''args''
     = (Return (Inr example_runner), example_calls)
   \<and> ExitCode example_runner = 0
   \<and> (\<exists>r'. Run example_runner None = Return (r', None) \<and> ExitCode r' = ExitCode example_runner)"
  using fresh_Runner_ExitCode_zero [OF New_example] New_example by blast

subsection \<open>Close\<close>

lemma caller_step_wired:
  assumes "wired r"
  shows "\<exists>r'. caller_step r x = Return r' \<and> wired r'"
  using assms
  by (cases x)
     (auto simp: wired_def SetStdoutWriter_def SetStderrWriter_def StdoutPipe_def StderrPipe_def
        Run_def Start_def Wait_def Close_def Let_def split: option.splits sum.splits)

lemma caller_steps_wired:
  assumes "wired r"
  shows "\<exists>r'. caller_steps r xs = Return r' \<and> wired r'"
  using assms
proof (induction xs arbitrary: r)
  case Nil
  then show ?case by simp
next
  case (Cons x xs)
  from caller_step_wired [OF Cons.prems, of x]
  obtain r1 where s: "caller_step r x = Return r1" and w: "wired r1" by blast
  from Cons.IH [OF w] show ?case using s by simp
qed

lemma Close_wired:
  assumes "wired r"
  shows "Close r res =
    Return (None, (if running r then [SignalC ''TERM''] else []) @ [SessionCloseC, ClientCloseC])"
  using assms by (simp add: Close_def wired_def)

text \<open>
  Claim C4. Take a runner returned by \<open>New\<close> and let the caller call any methods on it,
  \<open>Close\<close> among them, with any results of the library: no call panics, and on the runner
  reached every further call of \<open>Close\<close>, whatever errors the library returns to it,
  returns nil, after sending the signal TERM if the runner is running, then closing the
  session, then closing the client.
\<close>

theorem Close_always_nil:
  assumes "New w connection s arguments = (Return (Inr r0), t)"
  shows "\<exists>r. caller_steps r0 ops = Return r \<and>
           (\<forall>res \<in> set ress. Close r res =
              Return (None, (if running r then [SignalC ''TERM''] else [])
                              @ [SessionCloseC, ClientCloseC]))"
proof -
  from New_Runner_shape [OF assms] have "wired r0" by (simp add: wired_def)
  from caller_steps_wired [OF this, of ops]
  obtain r where r: "caller_steps r0 ops = Return r" and w: "wired r" by blast
  show ?thesis using r Close_wired [OF w] by blast
qed

theorem Close_always_nil_witness:
  "New example_world (StructIn (struct_of_Connection example_connection)) example_script ''args''
     = (Return (Inr example_runner), example_calls)
   \<and> (\<exists>r. caller_steps example_runner [OpStart None, OpClose (None, None, None)] = Return r \<and>
         (\<forall>res \<in> set [(Some (PlainError ''EOF''), Some (PlainError ''EOF''), None), (None, None, None)].
            Close r res = Return (None, [SignalC ''TERM'', SessionCloseC, ClientCloseC])))"
proof -
  have run: "caller_steps example_runner [OpStart None, OpClose (None, None, None)]
               = Return (example_runner\<lparr>running := True\<rparr>)"
    by (simp add: Start_def Close_def example_runner_def)
  from Close_always_nil [OF New_example, of "[OpStart None, OpClose (None, None, None)]"
      "[(Some (PlainError ''EOF''), Some (PlainError ''EOF''), None), (None, None, None)]"]
  show ?thesis using New_example run by simp
qed

subsection \<open>Start and Wait against Run\<close>

text \<open>
  Claim C8. On a Connected runner, \<open>Start\<close> followed by \<open>Wait\<close> ends in the same runner
  (state and recorded exit code) as \<open>Run\<close> on the same command, and returns an error of
  the same shape: here the remote side answers \<open>Start\<close> and \<open>Wait\<close> the same way in both
  cases, \<open>Session.Run\<close> being \<open>Start\<close> then \<open>Wait\<close>, and \<open>Session.Start\<close> reports failures of
  the transport, never an exit status.
\<close>

theorem Start_Wait_same_as_Run:
  assumes "Connected r"
    and "\<forall>err. start_res = Some err \<longrightarrow> errors_As_ExitError err = None"
  shows "\<exists>r' e1 e2. Run r (session_Run start_res wait_res) = Return (r', e1)
           \<and> Start_then_Wait r start_res wait_res = Return (r', e2)
           \<and> error_shape e1 = error_shape e2"
  using assms
  by (cases start_res; cases wait_res)
     (auto simp: Connected_def Run_def Start_def Wait_def Start_then_Wait_def session_Run_def
        error_shape_def Error_Script_def Error_Command_def Error_ExitCode_def Error_Unwrap_def
        Let_def split: option.splits)

theorem Start_Wait_same_as_Run_witness:
  "Connected example_runner
   \<and> (\<exists>r' e1 e2. Run example_runner (session_Run None (Some (ExitError 7))) = Return (r', e1)
           \<and> Start_then_Wait example_runner None (Some (ExitError 7)) = Return (r', e2)
           \<and> error_shape e1 = error_shape e2)
   \<and> errors_As_ExitError (PlainError ''EOF'') = None
   \<and> (\<exists>r' e1 e2. Run example_runner (session_Run (Some (PlainError ''EOF'')) None) = Return (r', e1)
           \<and> Start_then_Wait example_runner (Some (PlainError ''EOF'')) None = Return (r', e2)
           \<and> error_shape e1 = error_shape e2)"
proof -
  have c: "Connected example_runner" by (simp add: Connected_def example_runner_def)
  have h: "\<forall>err. (None :: go_error option) = Some err \<longrightarrow> errors_As_ExitError err = None"
    by simp
  have h': "\<forall>err. Some (PlainError ''EOF'') = Some err \<longrightarrow> errors_As_ExitError err = None"
    by simp
  from Start_Wait_same_as_Run [OF c h, of "Some (ExitError 7)"]
    Start_Wait_same_as_Run [OF c h', of None]
  show ?thesis using c by simp
qed

subsection \<open>The resolver on records and on mappings\<close>

lemma loadPubKey_conn:
  "fst (snd (loadPubKey w c p)) = (case loaded_key w p of None \<Rightarrow> c | Some k \<Rightarrow> c\<lparr>PubKey := Some k\<rparr>)"
  by (simp add: loadPubKey_def loaded_key_def split: option.splits sum.splits)

lemma ParseUint_loop_append:
  "ParseUint_loop a (xs @ ys) = (case ParseUint_loop a xs of None \<Rightarrow> None | Some b \<Rightarrow> ParseUint_loop b ys)"
  by (induction xs arbitrary: a) (simp_all add: Let_def)

lemma digit_char: "d < 10 \<Longrightarrow> is_digit (char_of (48 + d)) \<and> digit_val (char_of (48 + d)) = d"
  by (simp add: is_digit_def digit_val_def)

lemma ParseUint_loop_show_nat: "n < 65536 \<Longrightarrow> ParseUint_loop 0 (show_nat n) = Some n"
proof (induction n rule: show_nat.induct)
  case (1 n)
  show ?case
  proof (cases "n < 10")
    case True
    then show ?thesis using digit_char [of n]
      by (subst show_nat.simps) (simp add: Let_def)
  next
    case False
    have d: "n mod 10 < 10" by simp
    from False "1.prems" have ih: "ParseUint_loop 0 (show_nat (n div 10)) = Some (n div 10)"
      using "1.IH" by simp
    have "show_nat n = show_nat (n div 10) @ [char_of (48 + n mod 10)]"
      using False by (subst show_nat.simps) simp
    then show ?thesis using ih digit_char [OF d] "1.prems"
      by (simp add: ParseUint_loop_append Let_def)
  qed
qed

lemma show_nat_nonempty: "show_nat n \<noteq> []"
  by (subst show_nat.simps) simp

lemma ParseUint_show_nat: "n < 65536 \<Longrightarrow> ParseUint_10_16 (show_nat n) = Some n"
  by (simp add: ParseUint_10_16_def show_nat_nonempty ParseUint_loop_show_nat)

lemma ParseBool_true: "ParseBool (strings_ToLower ''true'') = Some True"
  by (simp add: ParseBool_def strings_ToLower_def lower_char_def)

lemma ParseBool_false: "ParseBool (strings_ToLower ''false'') = Some False"
  by (simp add: ParseBool_def strings_ToLower_def lower_char_def)

lemma conn_of_lookup_empty: "conn_of_lookup w c Map.empty = c"
  by (simp add: conn_of_lookup_def)

lemma map_entry_conn:
  "fst (map_entry w c kv) = conn_of_lookup w c [rv_String (fst kv) \<mapsto> rv_String (snd kv)]"
  by (cases "loaded_key w (rv_String (snd kv))")
     (simp_all add: map_entry_def conn_of_lookup_def Let_def loadPubKey_conn)

lemma conn_of_lookup_step:
  assumes "m k = None"
  shows "conn_of_lookup w (conn_of_lookup w c [k \<mapsto> v]) m = conn_of_lookup w c (m(k \<mapsto> v))"
proof -
  consider "k = ''Type''" | "k = ''Host''" | "k = ''Port''" | "k = ''User''"
    | "k = ''Password''" | "k = ''Insecure''" | "k = ''PubKeyPath''"
    | "k \<noteq> ''Type''" "k \<noteq> ''Host''" "k \<noteq> ''Port''" "k \<noteq> ''User''"
      "k \<noteq> ''Password''" "k \<noteq> ''Insecure''" "k \<noteq> ''PubKeyPath''"
    by blast
  then show ?thesis
  proof cases
    case 1 with assms show ?thesis by (simp add: conn_of_lookup_def cong: option.case_cong)
  next
    case 2 with assms show ?thesis by (simp add: conn_of_lookup_def cong: option.case_cong)
  next
    case 3 with assms show ?thesis by (simp add: conn_of_lookup_def cong: option.case_cong)
  next
    case 4 with assms show ?thesis by (simp add: conn_of_lookup_def cong: option.case_cong)
  next
    case 5 with assms show ?thesis by (simp add: conn_of_lookup_def cong: option.case_cong)
  next
    case 6 with assms show ?thesis by (simp add: conn_of_lookup_def cong: option.case_cong)
  next
    case 7 with assms show ?thesis
      by (cases "loaded_key w v") (simp_all add: conn_of_lookup_def cong: option.case_cong)
  next
    case 8 then show ?thesis by (simp add: conn_of_lookup_def cong: option.case_cong)
  qed
qed

lemma map_loop_conn:
  assumes "distinct (map fst (entry_strings kvs))"
  shows "fst (map_loop w c kvs) = conn_of_lookup w c (map_of (entry_strings kvs))"
  using assms
proof (induction kvs arbitrary: c)
  case Nil
  then show ?case by (simp add: entry_strings_def conn_of_lookup_empty)
next
  case (Cons kv kvs)
  let ?k = "rv_String (fst kv)" and ?v = "rv_String (snd kv)"
  from Cons.prems have d: "distinct (map fst (entry_strings kvs))"
    and n: "map_of (entry_strings kvs) ?k = None"
    by (auto simp: entry_strings_def map_of_eq_None_iff image_iff)
  have "fst (map_loop w c (kv # kvs)) = fst (map_loop w (fst (map_entry w c kv)) kvs)"
    by (simp add: Let_def)
  also have "\<dots> = conn_of_lookup w (conn_of_lookup w c [?k \<mapsto> ?v]) (map_of (entry_strings kvs))"
    using Cons.IH [OF d] by (simp add: map_entry_conn)
  also have "\<dots> = conn_of_lookup w c ((map_of (entry_strings kvs))(?k \<mapsto> ?v))"
    using n by (rule conn_of_lookup_step)
  also have "(map_of (entry_strings kvs))(?k \<mapsto> ?v) = map_of (entry_strings (kv # kvs))"
    by (simp add: entry_strings_def)
  finally show ?case .
qed

lemma entry_strings_string_map:
  "entry_strings (map (\<lambda>kv. (StringV (fst kv), StringV (snd kv))) kvs) = kvs"
  by (induction kvs) (simp_all add: entry_strings_def)

lemma struct_conn:
  "fst (toConnection w (StructIn (struct_of_Connection r))) =
     Return (let c = r\<lparr>PubKey := None\<rparr> in
             if PubKeyPath r = [] then c
             else (case loaded_key w (PubKeyPath r) of None \<Rightarrow> c | Some k \<Rightarrow> c\<lparr>PubKey := Some k\<rparr>))"
  by (cases "loaded_key w (PubKeyPath r)")
     (simp_all add: struct_fields_of_Connection Let_def loadPubKey_conn)

text \<open>
  Claim C7. A value of \<open>ssh.Connection\<close> and a \<open>map[string]string\<close> holding the same
  fields, the port in decimal and the boolean as \<open>true\<close> or \<open>false\<close>, resolve to the same
  descriptor, in whatever order the map is iterated. (The map path tries to load the key
  also for an empty path, which names no file: \<open>os.Stat\<close> fails on it.)
\<close>

theorem record_and_mapping_resolve_alike:
  assumes stat: "os_Stat w [] \<noteq> None"
    and dist: "distinct (map fst kvs)"
    and same: "map_of kvs = map_of (mapping_of_Connection r)"
  shows "fst (toConnection w (string_map kvs)) = fst (toConnection w (StructIn (struct_of_Connection r)))"
proof -
  have lk: "loaded_key w [] = None"
    using stat by (auto simp: loaded_key_def split: option.splits)
  have port: "ParseUint_10_16 (show_nat (unat (Port r))) = Some (unat (Port r))"
    using unsigned_less [of "Port r", where 'a = nat] by (intro ParseUint_show_nat) simp
  have "fst (toConnection w (string_map kvs)) =
          Return (conn_of_lookup w new_Connection (map_of (mapping_of_Connection r)))"
    using map_loop_conn [of "map (\<lambda>kv. (StringV (fst kv), StringV (snd kv))) kvs" w new_Connection]
      dist same
    by (simp add: string_map_def entry_strings_string_map Let_def)
  also have "conn_of_lookup w new_Connection (map_of (mapping_of_Connection r)) =
      (let c = r\<lparr>PubKey := None\<rparr> in
             if PubKeyPath r = [] then c
             else (case loaded_key w (PubKeyPath r) of None \<Rightarrow> c | Some k \<Rightarrow> c\<lparr>PubKey := Some k\<rparr>))"
  proof (cases "PubKeyPath r = []")
    case True
    then show ?thesis using lk port
      by (simp add: conn_of_lookup_def mapping_of_Connection_def new_Connection_def
            ParseBool_true ParseBool_false Let_def)
  next
    case False
    then show ?thesis using port
      by (cases "loaded_key w (PubKeyPath r)")
         (simp_all add: conn_of_lookup_def mapping_of_Connection_def new_Connection_def
            ParseBool_true ParseBool_false Let_def)
  qed
  finally show ?thesis by (simp only: struct_conn)
qed


theorem record_and_mapping_resolve_alike_witness:
  "os_Stat example_world [] \<noteq> None
   \<and> distinct (map fst (rev (mapping_of_Connection
         (example_connection\<lparr>PubKeyPath := ''/home/me/.ssh/id_rsa''\<rparr>))))
   \<and> map_of (rev (mapping_of_Connection (example_connection\<lparr>PubKeyPath := ''/home/me/.ssh/id_rsa''\<rparr>)))
       = map_of (mapping_of_Connection (example_connection\<lparr>PubKeyPath := ''/home/me/.ssh/id_rsa''\<rparr>))
   \<and> fst (toConnection example_world (string_map (rev (mapping_of_Connection
         (example_connection\<lparr>PubKeyPath := ''/home/me/.ssh/id_rsa''\<rparr>)))))
       = fst (toConnection example_world (StructIn (struct_of_Connection
           (example_connection\<lparr>PubKeyPath := ''/home/me/.ssh/id_rsa''\<rparr>))))"
proof -
  let ?r = "example_connection\<lparr>PubKeyPath := ''/home/me/.ssh/id_rsa''\<rparr>"
  have h1: "os_Stat example_world [] \<noteq> None" by (simp add: example_world_def)
  have d: "distinct (map fst (mapping_of_Connection ?r))"
    by (simp add: mapping_of_Connection_def)
  have h2: "distinct (map fst (rev (mapping_of_Connection ?r)))"
    using d by (simp add: rev_map [symmetric])
  have h3: "map_of (rev (mapping_of_Connection ?r)) = map_of (mapping_of_Connection ?r)"
    using map_of_inject_set [OF h2 d] by simp
  from record_and_mapping_resolve_alike [OF h1 h2 h3] show ?thesis using h1 h2 h3 by blast
qed

subsection \<open>The calls of the resolver\<close>

lemma loadPubKey_calls: "list_all key_call (snd (snd (loadPubKey w c p)))"
  by (simp add: loadPubKey_def split: option.splits sum.splits)

lemma map_entry_calls: "list_all key_call (snd (map_entry w c kv))"
  by (simp add: map_entry_def Let_def loadPubKey_calls)

lemma map_loop_calls: "list_all key_call (snd (map_loop w c kvs))"
  by (induction kvs arbitrary: c) (simp_all add: Let_def map_entry_calls)

lemma toConnection_calls: "list_all key_call (snd (toConnection w i))"
proof (cases i)
  case (StructIn v)
  then show ?thesis
    by (simp add: Let_def loadPubKey_calls split: exec.splits)
next
  case (MapIn kvs)
  then show ?thesis by (simp add: Let_def map_loop_calls)
next
  case OtherIn
  then show ?thesis by simp
qed

lemma toConnection_no_Dial:
  assumes "toConnection w i = (x, t)"
  shows "DialC n a cfg \<notin> set t \<and> HomedirExpandC f \<notin> set t \<and> KnownhostsNewC f \<notin> set t"
proof -
  from toConnection_calls [of w i] assms have "\<forall>c \<in> set t. key_call c"
    by (simp add: list_all_iff)
  then show ?thesis by auto
qed

subsection \<open>Authentication\<close>

lemma New_Dial_config:
  assumes conn: "toConnection w connection = (Return c, t0)"
    and dial: "DialC n a cfg \<in> set (snd (New w connection s arguments))"
  shows "n = ''tcp'' \<and> a = Host c @ '':'' @ show_nat (unat (Port c)) \<and> cfg_User cfg = User c
       \<and> Auth cfg = (if length (Password c) > 0 \<and> PubKey c = None
                     then [Some (ssh_Password (Password c))] else [PubKey c])
       \<and> (if Insecure c then HostKeyCallback cfg = InsecureIgnoreHostKey
          else (\<exists>f. homedir_Expand w ''~/.ssh/known_hosts'' = Inr f
                   \<and> knownhosts_New w f = Inr (HostKeyCallback cfg)))"
  using dial toConnection_no_Dial [OF conn, of n a cfg]
  by (auto simp: New_def New_dial_def conn Let_def split: option.splits sum.splits if_splits)

lemma struct_PubKey:
  assumes "toConnection w (StructIn v) = (Return c, t)"
    and "v ''PubKeyPath'' = Field x"
  shows "PubKey c = (if rv_String x = [] then None else loaded_key w (rv_String x))"
proof (cases "struct_fields v")
  case (Panic m)
  with assms(1) show ?thesis by simp
next
  case (Return c0)
  from Return assms(2) have c0: "PubKeyPath c0 = rv_String x \<and> PubKey c0 = None"
    by (auto simp: struct_fields_Return_iff new_Connection_def)
  show ?thesis
    using assms(1) Return c0
    by (cases "loaded_key w (rv_String x)")
       (auto simp: Let_def loadPubKey_conn split: if_splits)
qed

lemma map_PubKey:
  assumes "toConnection w (MapIn kvs) = (Return c, t)"
    and "distinct (map fst (entry_strings kvs))"
  shows "PubKey c = (case map_of (entry_strings kvs) ''PubKeyPath'' of
                       None \<Rightarrow> None | Some p \<Rightarrow> loaded_key w p)"
proof -
  from assms(1) have "c = fst (map_loop w new_Connection kvs)" by (auto simp: Let_def)
  then have "c = conn_of_lookup w new_Connection (map_of (entry_strings kvs))"
    using map_loop_conn [OF assms(2)] by simp
  then show ?thesis
    by (simp add: conn_of_lookup_def new_Connection_def split: option.splits)
qed

lemma toConnection_example:
  "toConnection example_world (StructIn (struct_of_Connection example_connection))
     = (Return example_connection, [])"
  by (simp add: struct_fields_of_Connection example_connection_def Let_def)

lemma example_calls_Dial:
  "DialC ''tcp'' ''localhost:22''
     \<lparr>cfg_User = ''me'', Auth = [Some (ssh_Password ''my-password'')],
      HostKeyCallback = InsecureIgnoreHostKey\<rparr> \<in> set example_calls"
  by (simp add: example_calls_def)

lemma toConnection_example_key:
  "toConnection example_world
     (StructIn (struct_of_Connection (example_connection\<lparr>PubKeyPath := ''/home/me/.ssh/id_rsa''\<rparr>)))
   = (Return (example_connection\<lparr>PubKeyPath := ''/home/me/.ssh/id_rsa'',
                                 PubKey := Some (ssh_PublicKeys ''signer'')\<rparr>),
      [StatC ''/home/me/.ssh/id_rsa'', ReadFileC ''/home/me/.ssh/id_rsa'',
       ParsePrivateKeyC ''PRIVATE KEY''])"
  by (simp add: struct_fields_of_Connection example_connection_def Let_def
        loadPubKey_def example_world_def)

lemma New_example_key_Dial:
  "DialC ''tcp'' ''localhost:22''
     \<lparr>cfg_User = ''me'', Auth = [Some (ssh_PublicKeys ''signer'')],
      HostKeyCallback = InsecureIgnoreHostKey\<rparr>
   \<in> set (snd (New example_world
       (StructIn (struct_of_Connection (example_connection\<lparr>PubKeyPath := ''/home/me/.ssh/id_rsa''\<rparr>)))
       example_script ''args''))"
  by (simp del: toConnection.simps
        add: New_def New_dial_def toConnection_example_key Let_def example_script_def)
     (simp add: example_world_def example_connection_def show_nat_22)

text \<open>
  Claim C2. Whenever \<open>New\<close> dials, for the descriptor \<open>c\<close> that the resolver returned: if
  the password is not empty and no key credential is loaded, the configuration holds
  password authentication and nothing else; in every other case it holds the field
  \<open>PubKey\<close> and nothing else, so the password is not used. In particular a key that
  \<open>loadPubKey\<close> could load from the key path of a struct or of a map is the one
  authentication method, whatever the password.
\<close>

theorem New_auth_method:
  assumes "toConnection w connection = (Return c, t0)"
    and "DialC n a cfg \<in> set (snd (New w connection s arguments))"
  shows "(length (Password c) > 0 \<and> PubKey c = None \<longrightarrow>
            Auth cfg = [Some (ssh_Password (Password c))])
       \<and> (\<not> (length (Password c) > 0 \<and> PubKey c = None) \<longrightarrow> Auth cfg = [PubKey c])
       \<and> (\<forall>v x k. connection = StructIn v \<and> v ''PubKeyPath'' = Field x \<and> rv_String x \<noteq> []
              \<and> loaded_key w (rv_String x) = Some k \<longrightarrow> Auth cfg = [Some k])
       \<and> (\<forall>kvs p k. connection = MapIn kvs \<and> distinct (map fst (entry_strings kvs))
              \<and> map_of (entry_strings kvs) ''PubKeyPath'' = Some p \<and> loaded_key w p = Some k
              \<longrightarrow> Auth cfg = [Some k])"
proof -
  have auth: "Auth cfg = (if length (Password c) > 0 \<and> PubKey c = None
                          then [Some (ssh_Password (Password c))] else [PubKey c])"
    using New_Dial_config [OF assms] by blast
  have s: "Auth cfg = [Some k]"
    if "connection = StructIn v" "v ''PubKeyPath'' = Field x" "rv_String x \<noteq> []"
       "loaded_key w (rv_String x) = Some k" for v x k
    using that struct_PubKey [of w v c t0 x] assms(1) auth by simp
  have m: "Auth cfg = [Some k]"
    if "connection = MapIn kvs" "distinct (map fst (entry_strings kvs))"
       "map_of (entry_strings kvs) ''PubKeyPath'' = Some p" "loaded_key w p = Some k" for kvs p k
    using that map_PubKey [of w kvs c t0] assms(1) auth by simp
  show ?thesis using auth s m by auto
qed

theorem New_auth_method_witness:
  "toConnection example_world (StructIn (struct_of_Connection example_connection))
     = (Return example_connection, [])
   \<and> DialC ''tcp'' ''localhost:22''
       \<lparr>cfg_User = ''me'', Auth = [Some (ssh_Password ''my-password'')],
        HostKeyCallback = InsecureIgnoreHostKey\<rparr>
     \<in> set (snd (New example_world (StructIn (struct_of_Connection example_connection))
                  example_script ''args''))
   \<and> Password example_connection = ''my-password'' \<and> PubKey example_connection = None
   \<and> Auth \<lparr>cfg_User = ''me'', Auth = [Some (ssh_Password ''my-password'')],
           HostKeyCallback = InsecureIgnoreHostKey\<rparr>
       = [Some (ssh_Password (Password example_connection))]
   \<and> DialC ''tcp'' ''localhost:22''
       \<lparr>cfg_User = ''me'', Auth = [Some (ssh_PublicKeys ''signer'')],
        HostKeyCallback = InsecureIgnoreHostKey\<rparr>
     \<in> set (snd (New example_world
          (StructIn (struct_of_Connection
             (example_connection\<lparr>PubKeyPath := ''/home/me/.ssh/id_rsa''\<rparr>)))
          example_script ''args''))
   \<and> loaded_key example_world ''/home/me/.ssh/id_rsa'' = Some (ssh_PublicKeys ''signer'')
   \<and> Auth \<lparr>cfg_User = ''me'', Auth = [Some (ssh_PublicKeys ''signer'')],
           HostKeyCallback = InsecureIgnoreHostKey\<rparr>
       = [Some (ssh_PublicKeys ''signer'')]"
proof -
  have d: "DialC ''tcp'' ''localhost:22''
       \<lparr>cfg_User = ''me'', Auth = [Some (ssh_Password ''my-password'')],
        HostKeyCallback = InsecureIgnoreHostKey\<rparr>
     \<in> set (snd (New example_world (StructIn (struct_of_Connection example_connection))
                  example_script ''args''))"
    using example_calls_Dial by (simp add: New_example)
  have p: "Password example_connection = ''my-password'' \<and> PubKey example_connection = None"
    by (simp add: example_connection_def)
  have k: "loaded_key example_world ''/home/me/.ssh/id_rsa'' = Some (ssh_PublicKeys ''signer'')"
    by (simp add: loaded_key_def example_world_def)
  note a = New_auth_method [OF toConnection_example d]
  note b = New_auth_method [OF toConnection_example_key New_example_key_Dial]
  show ?thesis using a b p k toConnection_example d New_example_key_Dial by simp
qed

subsection \<open>Host keys\<close>

text \<open>
  Claim C6. For the descriptor \<open>c\<close> that the resolver returned: if \<open>Insecure\<close> is set,
  \<open>New\<close> calls neither \<open>homedir.Expand\<close> nor \<open>knownhosts.New\<close>, and it dials with the
  callback \<open>InsecureIgnoreHostKey\<close>. If it is not set, \<open>New\<close>, once the script is parsed
  and the stdin reader is made, expands the path of the known-hosts file in the home
  directory; when the home directory cannot be found or the file cannot be accessed,
  \<open>New\<close> returns no runner but an \<open>Error\<close> with the exit code -1 and has not dialled; and
  when it dials, the callback is the one \<open>knownhosts.New\<close> made from that file.
\<close>

theorem New_host_key_policy:
  assumes "toConnection w connection = (Return c, t0)"
  shows "(Insecure c \<longrightarrow>
            HomedirExpandC f \<notin> set (snd (New w connection s arguments))
          \<and> KnownhostsNewC f \<notin> set (snd (New w connection s arguments))
          \<and> (\<forall>n a cfg. DialC n a cfg \<in> set (snd (New w connection s arguments))
                \<longrightarrow> HostKeyCallback cfg = InsecureIgnoreHostKey))
       \<and> (\<not> Insecure c \<and> script_Error s = None \<and> script_NewReader s arguments = Inr stdin \<longrightarrow>
            HomedirExpandC ''~/.ssh/known_hosts'' \<in> set (snd (New w connection s arguments)))
       \<and> (\<not> Insecure c \<and>
            (homedir_Expand w ''~/.ssh/known_hosts'' = Inl err
             \<or> (homedir_Expand w ''~/.ssh/known_hosts'' = Inr f
                  \<and> knownhosts_New w f = Inl err)) \<longrightarrow>
            (\<exists>e t. New w connection s arguments = (Return (Inl e), t)
                \<and> Error_ExitCode e = - 1 \<and> (\<forall>n a cfg. DialC n a cfg \<notin> set t)))
       \<and> (\<not> Insecure c \<longrightarrow>
            (\<forall>n a cfg. DialC n a cfg \<in> set (snd (New w connection s arguments)) \<longrightarrow>
               (\<exists>f'. homedir_Expand w ''~/.ssh/known_hosts'' = Inr f'
                    \<and> knownhosts_New w f' = Inr (HostKeyCallback cfg))))"
proof -
  note nd = toConnection_no_Dial [OF assms]
  have a: "HomedirExpandC f \<notin> set (snd (New w connection s arguments))
          \<and> KnownhostsNewC f \<notin> set (snd (New w connection s arguments))" if "Insecure c"
    using that nd [of _ _ _ f]
    by (auto simp: New_def New_dial_def assms Let_def split: option.splits sum.splits)
  have b: "HostKeyCallback cfg = (if Insecure c then InsecureIgnoreHostKey else HostKeyCallback cfg)
          \<and> (\<not> Insecure c \<longrightarrow> (\<exists>f'. homedir_Expand w ''~/.ssh/known_hosts'' = Inr f'
                    \<and> knownhosts_New w f' = Inr (HostKeyCallback cfg)))"
    if "DialC n a cfg \<in> set (snd (New w connection s arguments))" for n a cfg
    using New_Dial_config [OF assms that] by (auto split: if_splits)
  have c: "HomedirExpandC ''~/.ssh/known_hosts'' \<in> set (snd (New w connection s arguments))"
    if "\<not> Insecure c" "script_Error s = None" "script_NewReader s arguments = Inr stdin"
    using that
    by (auto simp: New_def New_dial_def assms Let_def split: option.splits sum.splits)
  have d: "\<exists>e t. New w connection s arguments = (Return (Inl e), t)
                \<and> Error_ExitCode e = - 1 \<and> (\<forall>n a cfg. DialC n a cfg \<notin> set t)"
    if "\<not> Insecure c" "homedir_Expand w ''~/.ssh/known_hosts'' = Inl err
             \<or> (homedir_Expand w ''~/.ssh/known_hosts'' = Inr f
                  \<and> knownhosts_New w f = Inl err)"
    using that nd
    by (auto simp: New_def New_dial_def assms Let_def Error_ExitCode_def
             split: option.splits sum.splits)
  show ?thesis using a b c d by metis
qed

lemma toConnection_example_secure:
  "toConnection example_world
     (StructIn (struct_of_Connection (example_connection\<lparr>Insecure := False\<rparr>)))
     = (Return (example_connection\<lparr>Insecure := False\<rparr>), [])"
  by (simp add: struct_fields_of_Connection example_connection_def Let_def)

theorem New_host_key_policy_witness:
  "toConnection example_world (StructIn (struct_of_Connection example_connection))
     = (Return example_connection, [])
   \<and> Insecure example_connection
   \<and> HomedirExpandC ''~/.ssh/known_hosts''
       \<notin> set (snd (New example_world (StructIn (struct_of_Connection example_connection))
                    example_script ''args''))
   \<and> KnownhostsNewC ''~/.ssh/known_hosts''
       \<notin> set (snd (New example_world (StructIn (struct_of_Connection example_connection))
                    example_script ''args''))
   \<and> \<not> Insecure (example_connection\<lparr>Insecure := False\<rparr>)
   \<and> homedir_Expand (example_world\<lparr>homedir_Expand := (\<lambda>p. Inl (PlainError ''no home''))\<rparr>)
       ''~/.ssh/known_hosts'' = Inl (PlainError ''no home'')
   \<and> (\<exists>e t. New (example_world\<lparr>homedir_Expand := (\<lambda>p. Inl (PlainError ''no home''))\<rparr>)
               (StructIn (struct_of_Connection (example_connection\<lparr>Insecure := False\<rparr>)))
               example_script ''args'' = (Return (Inl e), t)
           \<and> Error_ExitCode e = - 1 \<and> (\<forall>n a cfg. DialC n a cfg \<notin> set t))"
proof -
  let ?w = "example_world\<lparr>homedir_Expand := (\<lambda>p. Inl (PlainError ''no home''))\<rparr>"
  let ?c = "example_connection\<lparr>Insecure := False\<rparr>"
  have i: "Insecure example_connection" by (simp add: example_connection_def)
  have n: "\<not> Insecure ?c" by simp
  have h: "homedir_Expand ?w ''~/.ssh/known_hosts'' = Inl (PlainError ''no home'')" by simp
  have t: "toConnection ?w (StructIn (struct_of_Connection ?c)) = (Return ?c, [])"
    by (simp add: struct_fields_of_Connection example_connection_def Let_def)
  from New_host_key_policy [OF toConnection_example, of "''~/.ssh/known_hosts''" example_script "''args''"]
    i
  have a: "HomedirExpandC ''~/.ssh/known_hosts''
       \<notin> set (snd (New example_world (StructIn (struct_of_Connection example_connection))
                    example_script ''args''))
     \<and> KnownhostsNewC ''~/.ssh/known_hosts''
       \<notin> set (snd (New example_world (StructIn (struct_of_Connection example_connection))
                    example_script ''args''))"
    by blast
  from New_host_key_policy [OF t, of _ example_script "''args''" _ "PlainError ''no home''"] n h
  have b: "\<exists>e t. New ?w (StructIn (struct_of_Connection ?c)) example_script ''args''
              = (Return (Inl e), t)
           \<and> Error_ExitCode e = - 1 \<and> (\<forall>n a cfg. DialC n a cfg \<notin> set t)"
    by blast
  show ?thesis using toConnection_example i a n h b by blast
qed

subsection \<open>Totality of the resolver\<close>

lemma loadPubKey_fails_iff: "(fst (loadPubKey w c p) \<noteq> None) = (loaded_key w p = None)"
  by (simp add: loadPubKey_def loaded_key_def split: option.splits sum.splits)

lemma toConnection_map_conn:
  assumes "toConnection w (MapIn kvs) = (Return c, t)"
    and "distinct (map fst (entry_strings kvs))"
  shows "c = conn_of_lookup w new_Connection (map_of (entry_strings kvs))"
proof -
  from assms(1) have "c = fst (map_loop w new_Connection kvs)" by (auto simp: Let_def)
  then show ?thesis using map_loop_conn [OF assms(2)] by simp
qed

text \<open>
  Claim C5, as the code has it. \<open>toConnection\<close> returns a descriptor, and never an
  error, for every map, for every value that is neither a struct nor a map, and for every
  struct in which none of the fields \<open>Type\<close>, \<open>Host\<close>, \<open>Port\<close>, \<open>User\<close>, \<open>Password\<close>,
  \<open>Insecure\<close>, \<open>PubKeyPath\<close> is promoted through a nil embedded pointer, \<open>Port\<close> is of an
  unsigned integer kind and \<open>Insecure\<close> is of kind Bool; on every other struct it panics
  in package reflect, before any external call. A key that cannot be loaded leaves the
  credential nil and is not propagated. In a map with distinct keys a port that
  \<open>ParseUint\<close> rejects gives the port 0, a boolean that \<open>ParseBool\<close> rejects gives
  \<open>Insecure = false\<close>, and a key path whose key cannot be loaded is stored with no
  credential.
\<close>

theorem toConnection_returns_on_wellformed:
  "(\<exists>c t. toConnection w (MapIn kvs) = (Return c, t))
   \<and> toConnection w OtherIn = (Return new_Connection, [])
   \<and> (wellformed_struct v \<longrightarrow>
         (\<exists>c t. toConnection w (StructIn v) = (Return c, t)
            \<and> (\<forall>x. v ''PubKeyPath'' = Field x \<and> loaded_key w (rv_String x) = None
                  \<longrightarrow> PubKey c = None)))
   \<and> (\<not> wellformed_struct v \<longrightarrow> (\<exists>m. toConnection w (StructIn v) = (Panic m, [])))
   \<and> (distinct (map fst (entry_strings kvs)) \<longrightarrow>
        (\<forall>c t. toConnection w (MapIn kvs) = (Return c, t) \<longrightarrow>
           (\<forall>p. map_of (entry_strings kvs) ''Port'' = Some p \<and> ParseUint_10_16 p = None
                 \<longrightarrow> Port c = 0)
         \<and> (\<forall>b. map_of (entry_strings kvs) ''Insecure'' = Some b
                 \<and> ParseBool (strings_ToLower b) = None \<longrightarrow> Insecure c = False)
         \<and> (\<forall>p. map_of (entry_strings kvs) ''PubKeyPath'' = Some p \<and> loaded_key w p = None
                 \<longrightarrow> PubKeyPath c = p \<and> PubKey c = None)))"
proof -
  have m: "\<exists>c t. toConnection w (MapIn kvs) = (Return c, t)" by (simp add: Let_def)
  have o: "toConnection w OtherIn = (Return new_Connection, [])" by simp
  have s: "\<exists>c t. toConnection w (StructIn v) = (Return c, t)
            \<and> (\<forall>x. v ''PubKeyPath'' = Field x \<and> loaded_key w (rv_String x) = None
                  \<longrightarrow> PubKey c = None)"
    if "wellformed_struct v"
  proof -
    from that obtain c0 where c0: "struct_fields v = Return c0"
      using struct_fields_wellformed [of v] by blast
    then have "\<exists>c t. toConnection w (StructIn v) = (Return c, t)"
      by (cases "PubKeyPath c0 = []") (simp_all add: Let_def)
    then obtain c t where r: "toConnection w (StructIn v) = (Return c, t)"
      by blast
    have "PubKey c = None" if "v ''PubKeyPath'' = Field x" "loaded_key w (rv_String x) = None"
      for x
      using struct_PubKey [OF r that(1)] that(2) by simp
    with r show ?thesis by blast
  qed
  have n: "\<exists>m. toConnection w (StructIn v) = (Panic m, [])" if "\<not> wellformed_struct v"
  proof (cases "struct_fields v")
    case (Panic m)
    then show ?thesis by simp
  next
    case (Return c0)
    with that struct_fields_wellformed [of v] show ?thesis by blast
  qed
  have d: "(\<forall>p. map_of (entry_strings kvs) ''Port'' = Some p \<and> ParseUint_10_16 p = None
                 \<longrightarrow> Port c = 0)
         \<and> (\<forall>b. map_of (entry_strings kvs) ''Insecure'' = Some b
                 \<and> ParseBool (strings_ToLower b) = None \<longrightarrow> Insecure c = False)
         \<and> (\<forall>p. map_of (entry_strings kvs) ''PubKeyPath'' = Some p \<and> loaded_key w p = None
                 \<longrightarrow> PubKeyPath c = p \<and> PubKey c = None)"
    if "distinct (map fst (entry_strings kvs))" "toConnection w (MapIn kvs) = (Return c, t)"
    for c t
    using toConnection_map_conn [OF that(2) that(1)]
    by (auto simp: conn_of_lookup_def new_Connection_def)
  show ?thesis using m o s n d by blast
qed

theorem toConnection_returns_on_wellformed_witness:
  "distinct (map fst (entry_strings
       [(StringV ''Port'', StringV ''abc''), (StringV ''Insecure'', StringV ''maybe''),
        (StringV ''PubKeyPath'', StringV ''/nonexistent'')]))
   \<and> ParseUint_10_16 ''abc'' = None \<and> ParseBool (strings_ToLower ''maybe'') = None
   \<and> loaded_key example_world ''/nonexistent'' = None
   \<and> (\<exists>c t. toConnection example_world (MapIn
         [(StringV ''Port'', StringV ''abc''), (StringV ''Insecure'', StringV ''maybe''),
          (StringV ''PubKeyPath'', StringV ''/nonexistent'')]) = (Return c, t)
        \<and> Port c = 0 \<and> Insecure c = False \<and> PubKeyPath c = ''/nonexistent'' \<and> PubKey c = None)
   \<and> wellformed_struct (struct_of_Connection example_connection)
   \<and> (\<exists>c t. toConnection example_world (StructIn (struct_of_Connection example_connection))
         = (Return c, t))
   \<and> \<not> wellformed_struct ((struct_of_Connection example_connection)
            (''Host'' := ThroughNilPointer))
   \<and> (\<exists>m. toConnection example_world
          (StructIn ((struct_of_Connection example_connection)(''Host'' := ThroughNilPointer)))
         = (Panic m, []))"
proof -
  let ?kvs = "[(StringV ''Port'', StringV ''abc''), (StringV ''Insecure'', StringV ''maybe''),
               (StringV ''PubKeyPath'', StringV ''/nonexistent'')]"
  let ?v = "struct_of_Connection example_connection"
  have d: "distinct (map fst (entry_strings ?kvs))" by (simp add: entry_strings_def)
  have p: "ParseUint_10_16 ''abc'' = None" by (simp add: ParseUint_10_16_def is_digit_def)
  have b: "ParseBool (strings_ToLower ''maybe'') = None"
    by (simp add: ParseBool_def strings_ToLower_def lower_char_def)
  have k: "loaded_key example_world ''/nonexistent'' = None"
    by (simp add: loaded_key_def example_world_def)
  have l: "map_of (entry_strings ?kvs) ''Port'' = Some ''abc''
         \<and> map_of (entry_strings ?kvs) ''Insecure'' = Some ''maybe''
         \<and> map_of (entry_strings ?kvs) ''PubKeyPath'' = Some ''/nonexistent''"
    by (simp add: entry_strings_def)
  have wf: "wellformed_struct ?v"
    by (simp add: wellformed_struct_def struct_of_Connection_def)
  have nwf: "\<not> wellformed_struct (?v(''Host'' := ThroughNilPointer))"
    by (simp add: wellformed_struct_def)
  from toConnection_returns_on_wellformed [of example_world ?kvs ?v] d p b k l wf
  have 1: "\<exists>c t. toConnection example_world (MapIn ?kvs) = (Return c, t)
        \<and> Port c = 0 \<and> Insecure c = False \<and> PubKeyPath c = ''/nonexistent'' \<and> PubKey c = None"
    and 2: "\<exists>c t. toConnection example_world (StructIn ?v) = (Return c, t)"
    by blast+
  from toConnection_returns_on_wellformed
         [of example_world ?kvs "?v(''Host'' := ThroughNilPointer)"] nwf
  have 3: "\<exists>m. toConnection example_world (StructIn (?v(''Host'' := ThroughNilPointer)))
             = (Panic m, [])"
    by blast
  show ?thesis using d p b k wf nwf 1 2 3 by blast
qed

text \<open>
  Claim C5 as stated fails: a struct whose field \<open>Port\<close> is an \<open>int\<close> makes
  \<open>reflect.Value.Uint\<close> panic, so \<open>toConnection\<close> returns no descriptor.
\<close>

theorem toConnection_panics_on_int_Port:
  "fst (toConnection example_world
         (StructIn ((struct_of_Connection example_connection)(''Port'' := Field (OtherV ''int'')))))
     = Panic ''reflect: call of reflect.Value.Uint on non-uint Value''"
  by (simp add: struct_fields_def FieldByName_def struct_of_Connection_def)

subsection \<open>The field Type\<close>

lemma map_entry_Type:
  assumes "rv_String (fst kv) \<noteq> ''Type''"
  shows "map_entry w (c\<lparr>Type := ty\<rparr>) kv =
           ((fst (map_entry w c kv))\<lparr>Type := ty\<rparr>, snd (map_entry w c kv))"
  using assms
  by (simp add: map_entry_def Let_def loadPubKey_def split: option.splits sum.splits)

lemma map_entry_is_Type:
  assumes "rv_String (fst kv) = ''Type''"
  shows "map_entry w c kv = (c\<lparr>Type := rv_String (snd kv)\<rparr>, [])"
  using assms by (simp add: map_entry_def Let_def)

lemma map_loop_Type:
  "\<exists>ty. map_loop w (c\<lparr>Type := ta\<rparr>) (set_Type t2 kvs) =
          ((fst (map_loop w c (set_Type t1 kvs)))\<lparr>Type := ty\<rparr>,
           snd (map_loop w c (set_Type t1 kvs)))"
proof (induction kvs arbitrary: c ta)
  case Nil
  show ?case by (simp add: set_Type_def) blast
next
  case (Cons kv kvs)
  show ?case
  proof (cases "rv_String (fst kv) = ''Type''")
    case True
    have l: "map_loop w (c\<lparr>Type := ta\<rparr>) (set_Type t2 (kv # kvs)) =
             map_loop w (c\<lparr>Type := rv_String t1, Type := rv_String t2\<rparr>) (set_Type t2 kvs)"
      using True by (simp add: set_Type_def map_entry_is_Type Let_def)
    have r: "map_loop w c (set_Type t1 (kv # kvs)) =
             map_loop w (c\<lparr>Type := rv_String t1\<rparr>) (set_Type t1 kvs)"
      using True by (simp add: set_Type_def map_entry_is_Type Let_def)
    from Cons.IH [where c = "c\<lparr>Type := rv_String t1\<rparr>" and ta = "rv_String t2"] show ?thesis
      unfolding l r by simp
  next
    case False
    obtain c1 tr where e: "map_entry w c kv = (c1, tr)" by (cases "map_entry w c kv")
    have l: "map_loop w (c\<lparr>Type := ta\<rparr>) (set_Type t2 (kv # kvs)) =
             (fst (map_loop w (c1\<lparr>Type := ta\<rparr>) (set_Type t2 kvs)),
              tr @ snd (map_loop w (c1\<lparr>Type := ta\<rparr>) (set_Type t2 kvs)))"
      using False e by (simp add: set_Type_def map_entry_Type Let_def)
    have r: "map_loop w c (set_Type t1 (kv # kvs)) =
             (fst (map_loop w c1 (set_Type t1 kvs)), tr @ snd (map_loop w c1 (set_Type t1 kvs)))"
      using False e by (simp add: set_Type_def Let_def)
    from Cons.IH [where c = c1 and ta = ta] obtain ty where
      "map_loop w (c1\<lparr>Type := ta\<rparr>) (set_Type t2 kvs) =
          ((fst (map_loop w c1 (set_Type t1 kvs)))\<lparr>Type := ty\<rparr>,
           snd (map_loop w c1 (set_Type t1 kvs)))" by blast
    then show ?thesis unfolding l r by auto
  qed
qed

lemma New_Type_irrelevant:
  assumes "toConnection w i1 = (Return c, t)"
    and "toConnection w i2 = (Return (c\<lparr>Type := ty\<rparr>), t)"
  shows "New w i1 s a = New w i2 s a"
  by (auto simp: New_def assms Let_def split: option.splits sum.splits)

lemma New_same_connection:
  assumes "toConnection w i1 = toConnection w i2"
  shows "New w i1 s a = New w i2 s a"
  by (cases "script_Error s") (simp_all add: New_def assms)

lemma bind_exec_map_exec:
  assumes "\<And>x. f x = map_exec g (f' x)"
  shows "bind_exec X f = map_exec g (bind_exec X f')"
  by (cases X) (simp_all add: assms)

lemma FieldByName_upd:
  "FieldByName (v(n := Field t)) n' = (if n' = n then Return t else FieldByName v n')"
  by (simp add: FieldByName_def)

lemma struct_fields_Type:
  "struct_fields (v(''Type'' := Field t2)) =
     map_exec (\<lambda>c. c\<lparr>Type := rv_String t2\<rparr>) (struct_fields (v(''Type'' := Field t1)))"
  unfolding struct_fields_def
  by (simp add: FieldByName_upd) (intro bind_exec_map_exec, simp)

lemma toConnection_struct_Type:
  "toConnection w (StructIn (v(''Type'' := Field t2))) =
     (case toConnection w (StructIn (v(''Type'' := Field t1))) of
        (Panic m, t) \<Rightarrow> (Panic m, t)
      | (Return c, t) \<Rightarrow> (Return (c\<lparr>Type := rv_String t2\<rparr>), t))"
  by (cases "struct_fields (v(''Type'' := Field t1))")
     (simp_all add: struct_fields_Type [of v t2 t1] Let_def loadPubKey_def
        split: option.splits sum.splits)

text \<open>
  Claim C10. The field \<open>Type\<close> is never looked at after the resolver has stored it: two
  structs that differ only in the field \<open>Type\<close>, and two maps that differ only in the
  value at the key \<open>Type\<close>, whatever these values are, give the same result of \<open>New\<close>:
  the same external calls in the same order, and the same runner or the same error or
  the same panic, so that every later method of the runner acts on the same runner.
\<close>

theorem New_ignores_Type:
  "New w (StructIn (v(''Type'' := Field t1))) s a = New w (StructIn (v(''Type'' := Field t2))) s a
   \<and> New w (MapIn (set_Type t1 kvs)) s a = New w (MapIn (set_Type t2 kvs)) s a"
proof
  show "New w (StructIn (v(''Type'' := Field t1))) s a = New w (StructIn (v(''Type'' := Field t2))) s a"
  proof (cases "toConnection w (StructIn (v(''Type'' := Field t1)))")
    case (Pair x t)
    show ?thesis
    proof (cases x)
      case (Panic m)
      with Pair toConnection_struct_Type [of w v t2 t1]
      have "toConnection w (StructIn (v(''Type'' := Field t1))) =
            toConnection w (StructIn (v(''Type'' := Field t2)))"
        by (simp del: toConnection.simps)
      then show ?thesis by (rule New_same_connection)
    next
      case (Return c)
      from Pair Return
      have "toConnection w (StructIn (v(''Type'' := Field t1))) = (Return c, t)"
        by (simp del: toConnection.simps)
      moreover from Pair Return toConnection_struct_Type [of w v t2 t1]
      have "toConnection w (StructIn (v(''Type'' := Field t2))) = (Return (c\<lparr>Type := rv_String t2\<rparr>), t)"
        by (simp del: toConnection.simps)
      ultimately show ?thesis by (rule New_Type_irrelevant)
    qed
  qed
next
  from map_loop_Type [where w = w and c = new_Connection and ta = "Type new_Connection"
      and ?t2.0 = t2 and kvs = kvs and ?t1.0 = t1]
  obtain ty where
    "map_loop w new_Connection (set_Type t2 kvs) =
       ((fst (map_loop w new_Connection (set_Type t1 kvs)))\<lparr>Type := ty\<rparr>,
        snd (map_loop w new_Connection (set_Type t1 kvs)))"
    by auto
  then have e2: "toConnection w (MapIn (set_Type t2 kvs)) =
      (Return ((fst (map_loop w new_Connection (set_Type t1 kvs)))\<lparr>Type := ty\<rparr>),
       snd (map_loop w new_Connection (set_Type t1 kvs)))"
    by (simp add: Let_def)
  have e1: "toConnection w (MapIn (set_Type t1 kvs)) =
      (Return (fst (map_loop w new_Connection (set_Type t1 kvs))),
       snd (map_loop w new_Connection (set_Type t1 kvs)))"
    by (simp add: Let_def)
  from e1 e2 show "New w (MapIn (set_Type t1 kvs)) s a = New w (MapIn (set_Type t2 kvs)) s a"
    by (rule New_Type_irrelevant)
qed

theorem New_ignores_Type_witness:
  "New example_world (StructIn ((struct_of_Connection example_connection)(''Type'' := Field (StringV ''telnet''))))
       example_script ''args''
     = (Return (Inr example_runner), example_calls)
   \<and> New example_world (MapIn (set_Type (StringV ''telnet'') [(StringV ''Type'', StringV ''ssh'')]))
       example_script ''args''
     = New example_world (MapIn (set_Type (OtherV ''int'') [(StringV ''Type'', StringV ''ssh'')]))
       example_script ''args''"
proof -
  have e: "(struct_of_Connection example_connection)(''Type'' := Field (StringV ''ssh''))
           = struct_of_Connection example_connection"
    by (rule ext) (simp add: struct_of_Connection_def example_connection_def)
  from New_ignores_Type [of example_world "struct_of_Connection example_connection"
      "StringV ''telnet''" example_script "''args''" "StringV ''ssh''"
      "[(StringV ''Type'', StringV ''ssh'')]"]
  have "New example_world (StructIn ((struct_of_Connection example_connection)(''Type'' := Field (StringV ''telnet''))))
       example_script ''args''
     = New example_world (StructIn (struct_of_Connection example_connection)) example_script ''args''"
    by (simp add: e)
  moreover from New_ignores_Type [of example_world "struct_of_Connection example_connection"
      "StringV ''telnet''" example_script "''args''" "OtherV ''int''"
      "[(StringV ''Type'', StringV ''ssh'')]"]
  have "New example_world (MapIn (set_Type (StringV ''telnet'') [(StringV ''Type'', StringV ''ssh'')]))
       example_script ''args''
     = New example_world (MapIn (set_Type (OtherV ''int'') [(StringV ''Type'', StringV ''ssh'')]))
       example_script ''args''"
    by blast
  ultimately show ?thesis using New_example by simp
qed

end
